theory Spec2Isabelle
  imports
    Complex_Main
    "HOL-Library.Sublist"
    "HOL-Library.Char_ord"
    "HOL-Library.List_Lexorder"
    "HOL-Library.Product_Lexorder"
    "HOL-Library.Multiset"
begin

section \<open>Usage cost tracking: pricing resolution, cost computation, usage summary, status\<close>

text \<open>
  A shallow embedding of \<^verbatim>\<open>src/functions/cost_tracking_util.py\<close>.

  Text is modelled as \<^typ>\<open>string\<close>, a list of bytes. Model names, currencies and status
  labels are ASCII in the program's own table and messages, and ASCII text is represented
  character by character. The single non-ASCII character the program writes, the ruble
  sign U+20BD, is represented by its three UTF-8 bytes. \<^verbatim>\<open>str.lower\<close> and
  \<^verbatim>\<open>str.strip\<close> are modelled on ASCII: bytes above 127 are left alone.
\<close>

subsection \<open>Python string operations\<close>

definition lower_char :: "char \<Rightarrow> char" where
  "lower_char c =
     (let n = (of_char c :: nat) in if 65 \<le> n \<and> n \<le> 90 then char_of (n + 32) else c)"

definition lower :: "string \<Rightarrow> string" where
  "lower s = map lower_char s"

definition isspace :: "char \<Rightarrow> bool" where
  \<comment> \<open>ASCII whitespace of \<^verbatim>\<open>str.isspace\<close>: TAB, LF, VT, FF, CR, FS, GS, RS, US, space.\<close>
  "isspace c = (let n = (of_char c :: nat) in (9 \<le> n \<and> n \<le> 13) \<or> (28 \<le> n \<and> n \<le> 32))"

definition strip :: "string \<Rightarrow> string" where
  "strip s = rev (dropWhile isspace (rev (dropWhile isspace s)))"

fun startswith :: "string \<Rightarrow> string \<Rightarrow> bool" where
  \<comment> \<open>\<^verbatim>\<open>s.startswith(p)\<close>\<close>
  "startswith s [] = True"
| "startswith [] (p # ps) = False"
| "startswith (c # cs) (p # ps) = (c = p \<and> startswith cs ps)"

fun contains :: "string \<Rightarrow> string \<Rightarrow> bool" where
  \<comment> \<open>\<^verbatim>\<open>p in s\<close> for strings: \<open>p\<close> occurs in \<open>s\<close> as a contiguous run.\<close>
  "contains [] p = (p = [])"
| "contains (c # cs) p = (startswith (c # cs) p \<or> contains cs p)"

definition after_first_dot :: "string \<Rightarrow> string" where
  \<comment> \<open>\<^verbatim>\<open>name.split(".", 1)[1]\<close>, used only when \<open>name\<close> holds a dot.\<close>
  "after_first_dot name = tl (dropWhile (\<lambda>c. c \<noteq> CHR ''.'') name)"

fun join :: "string \<Rightarrow> string list \<Rightarrow> string" where
  \<comment> \<open>\<^verbatim>\<open>sep.join(parts)\<close>\<close>
  "join sep [] = []"
| "join sep [p] = p"
| "join sep (p # q # ps) = p @ sep @ join sep (q # ps)"

subsection \<open>Python's decimal arithmetic in the default context\<close>

text \<open>
  A \<^verbatim>\<open>Decimal\<close> is a sign, a coefficient and an exponent; its value is
  \<open>\<plusminus> coefficient * 10 ^ exponent\<close>. The default context has 28 significant digits,
  rounds half-even, bounds the exponent by \<open>\<plusminus>999999\<close> and traps
  \<^verbatim>\<open>InvalidOperation\<close> and \<^verbatim>\<open>Overflow\<close> (they are raised as exceptions);
  the other signals pass silently.
\<close>

record decimal =
  negative :: bool
  coefficient :: nat
  exponent :: int

datatype error = InvalidOperation | Overflow | OverflowError






definition round_half_even :: "nat \<Rightarrow> nat \<Rightarrow> nat" where
  \<comment> \<open>\<open>c / 10 ^ k\<close> to the nearest integer, a tie to the even one\<close>
  "round_half_even c k =
     (let p = 10 ^ k; q = c div p; r = c mod p in
      if 2 * r > p \<or> (2 * r = p \<and> odd q) then q + 1 else q)"

definition round_half_up :: "nat \<Rightarrow> nat \<Rightarrow> nat" where
  \<comment> \<open>\<open>c / 10 ^ k\<close> to the nearest integer, a tie away from zero\<close>
  "round_half_up c k =
     (let p = 10 ^ k; q = c div p; r = c mod p in if 2 * r \<ge> p then q + 1 else q)"

definition rescale :: "(nat \<Rightarrow> nat \<Rightarrow> nat) \<Rightarrow> decimal \<Rightarrow> int \<Rightarrow> decimal" where
  \<comment> \<open>\<^verbatim>\<open>Decimal._rescale(exp, rounding)\<close>: the same sign at exponent \<open>e\<close>, padded with
      zeros or rounded by the given rule\<close>
  "rescale rnd d e =
     (if exponent d \<ge> e
      then d\<lparr>coefficient := coefficient d * 10 ^ nat (exponent d - e), exponent := e\<rparr>
      else d\<lparr>coefficient := rnd (coefficient d) (nat (e - exponent d)), exponent := e\<rparr>)"






subsection \<open>Config\<close>


subsection \<open>ModelCostManager\<close>

record pricing =
  pricing_input_cost_per_token :: decimal
  pricing_output_cost_per_token :: decimal
  pricing_cost_currency :: string

definition dec :: "nat \<Rightarrow> int \<Rightarrow> decimal" where
  "dec c e = \<lparr>negative = False, coefficient = c, exponent = e\<rparr>"

definition price :: "decimal \<Rightarrow> decimal \<Rightarrow> string \<Rightarrow> pricing" where
  "price i out cur =
     \<lparr>pricing_input_cost_per_token = i, pricing_output_cost_per_token = out,
      pricing_cost_currency = cur\<rparr>"

definition pricing_data :: "(string \<times> pricing) list" where
  \<comment> \<open>The table of the class \<^verbatim>\<open>ModelCostManager\<close>, in its iteration order; it is the
      table the resolution reads (the table of the pricing-data module is not imported
      by it). A cost is kept as the decimal that \<^verbatim>\<open>Decimal(str(x))\<close> gives for the float
      literal \<open>x\<close> of the source: \<open>str\<close> of each of these literals is the literal without
      its trailing zeros.\<close>
  "pricing_data =
    [(''openai.o1-preview'', price (dec 15 (- 3)) (dec 6 (- 2)) ''USD''),
     (''openai.o1-mini'', price (dec 3 (- 3)) (dec 12 (- 3)) ''USD''),
     (''chatgpt-4o-latest'', price (dec 5 (- 3)) (dec 15 (- 3)) ''USD''),
     (''openai.gpt-4o'', price (dec 25 (- 4)) (dec 1 (- 2)) ''USD''),
     (''openai.gpt-4o-2024-05-13'', price (dec 5 (- 3)) (dec 15 (- 3)) ''USD''),
     (''openai.gpt-4o-mini'', price (dec 15 (- 5)) (dec 6 (- 4)) ''USD''),
     (''openai.gpt-4-turbo'', price (dec 1 (- 2)) (dec 3 (- 2)) ''USD''),
     (''openai.gpt-4'', price (dec 3 (- 2)) (dec 6 (- 2)) ''USD''),
     (''anthropic.claude-3-opus'', price (dec 15 (- 3)) (dec 75 (- 3)) ''USD''),
     (''anthropic.claude-3-sonnet'', price (dec 3 (- 3)) (dec 15 (- 3)) ''USD''),
     (''anthropic.claude-3-5-sonnet'', price (dec 3 (- 3)) (dec 15 (- 3)) ''USD''),
     (''anthropic.claude-3-haiku'', price (dec 25 (- 5)) (dec 125 (- 5)) ''USD''),
     (''anthropic.claude-3-5-haiku'', price (dec 25 (- 5)) (dec 125 (- 5)) ''USD''),
     (''yandexgpt.yandexgpt'', price (dec 12 (- 4)) (dec 12 (- 4)) ''RUB''),
     (''yandexgpt.yandexgpt-lite'', price (dec 2 (- 4)) (dec 2 (- 4)) ''RUB'')]"

definition normalize_model_name :: "string \<Rightarrow> bool \<Rightarrow> string" where
  "normalize_model_name name strip_prefix =
     (let name = lower name in
      if strip_prefix \<and> CHR ''.'' \<in> set name then after_first_dot name else name)"

fun best_match_loop ::
  "string \<Rightarrow> bool \<Rightarrow> string list \<Rightarrow> string option \<Rightarrow> nat \<Rightarrow> string option" where
  \<comment> \<open>the \<^verbatim>\<open>for key in pricing_data.keys()\<close> loop of \<^verbatim>\<open>_find_best_match\<close>, with
      \<open>best_match\<close> and \<open>longest_match_length\<close> as accumulators\<close>
  "best_match_loop normalized_query strip_prefix [] best_match longest_match_length =
     best_match"
| "best_match_loop normalized_query strip_prefix (key # keys) best_match longest_match_length =
     (let normalized_key = normalize_model_name key strip_prefix in
      if startswith normalized_query normalized_key
         \<and> length normalized_key > longest_match_length
      then best_match_loop normalized_query strip_prefix keys (Some key) (length normalized_key)
      else best_match_loop normalized_query strip_prefix keys best_match longest_match_length)"

definition find_best_match ::
  "(string \<times> pricing) list \<Rightarrow> string \<Rightarrow> bool \<Rightarrow> string option" where
  "find_best_match table query strip_prefix =
     best_match_loop (normalize_model_name query strip_prefix) strip_prefix
       (map fst table) None 0"

datatype log_line =
  ExactMatch string
  | SearchingBestMatch string
  | TryingWithoutPrefix string
  | NotFound string
  | UsingMatch string

definition get_model_data ::
  "(string \<times> pricing) list \<Rightarrow> string \<Rightarrow> (string \<times> pricing option) \<times> log_line list" where
  \<comment> \<open>The result is the pair the source returns (\<open>None\<close> is the empty dict), together
      with the lines it prints on the way, one constructor for each \<^verbatim>\<open>print\<close>.\<close>
  "get_model_data table model =
     (let model = strip (lower model) in
      if model \<in> set (map fst table)
      then ((model, map_of table model), [ExactMatch model])
      else
        let log = [SearchingBestMatch model];
            best_match = find_best_match table model False;
            (best_match, log) =
              (if best_match = None
               then (find_best_match table model True,
                     log @ [TryingWithoutPrefix (normalize_model_name model True)])
               else (best_match, log))
        in case best_match of
             None \<Rightarrow> ((''unknown'', None), log @ [NotFound model])
           | Some key \<Rightarrow> ((key, map_of table key), log @ [UsingMatch key]))"

subsection \<open>CostCalculationManager\<close>









subsection \<open>Formatting\<close>

definition digit_char :: "nat \<Rightarrow> char" where
  \<comment> \<open>the last decimal digit of \<open>n\<close>\<close>
  "digit_char n = ''0123456789'' ! (n mod 10)"

fun digits_of :: "nat \<Rightarrow> string" where
  \<comment> \<open>\<^verbatim>\<open>str(n)\<close> for \<open>n \<ge> 0\<close>\<close>
  "digits_of n = (if n < 10 then [digit_char n] else digits_of (n div 10) @ [digit_char n])"

declare digits_of.simps [simp del]

definition str_int :: "int \<Rightarrow> string" where
  \<comment> \<open>\<^verbatim>\<open>str(i)\<close>, what \<^verbatim>\<open>f"{i}"\<close> writes for an integer\<close>
  "str_int i = (if i < 0 then CHR ''-'' # digits_of (nat (- i)) else digits_of (nat i))"

fun group_thousands :: "string \<Rightarrow> string" where
  \<comment> \<open>a comma before every group of three digits, counted from the right\<close>
  "group_thousands ds =
     (if length ds \<le> 3 then ds
      else group_thousands (take (length ds - 3) ds) @ CHR '','' # drop (length ds - 3) ds)"

declare group_thousands.simps [simp del]

definition format_cost :: "decimal \<Rightarrow> string" where
  \<comment> \<open>\<^verbatim>\<open>f"{d:,.2f}"\<close>: rounded to two fractional digits by the context's rule
      (half-even), the integer part grouped by thousands, a minus sign when the sign
      of the decimal is negative (also on a zero)\<close>
  "format_cost d =
     (let r = rescale round_half_even d (- 2);
          intpart = coefficient r div 100;
          fracpart = coefficient r mod 100
      in (if negative r then [CHR ''-''] else [])
         @ group_thousands (digits_of intpart)
         @ CHR ''.'' # [digit_char (fracpart div 10), digit_char fracpart])"

definition ruble :: string where
  \<comment> \<open>the ruble sign U+20BD in UTF-8\<close>
  "ruble = [CHR 0xE2, CHR 0x82, CHR 0xBD]"

subsection \<open>UsagePersistenceManager\<close>

type_synonym datetime = "nat \<times> nat"

text \<open>
  A naive \<^verbatim>\<open>datetime\<close> is the pair of the proleptic Gregorian ordinal of its day
  (\<^verbatim>\<open>toordinal()\<close>, day 1 is 0001-01-01) and the microsecond within the day.
  Pairs are ordered lexicographically, which is the order of time.
\<close>

definition MAXORDINAL :: nat where
  \<comment> \<open>\<^verbatim>\<open>date(9999, 12, 31).toordinal()\<close>\<close>
  "MAXORDINAL = 3652059"

definition is_leap :: "nat \<Rightarrow> bool" where
  "is_leap year = (year mod 4 = 0 \<and> (year mod 100 \<noteq> 0 \<or> year mod 400 = 0))"

definition days_before_year :: "nat \<Rightarrow> nat" where
  "days_before_year year =
     (let y = year - 1 in y * 365 + y div 4 - y div 100 + y div 400)"

definition days_in_month :: "nat \<Rightarrow> nat \<Rightarrow> nat" where
  "days_in_month year month =
     (if month = 2 then (if is_leap year then 29 else 28)
      else if month = 4 \<or> month = 6 \<or> month = 9 \<or> month = 11 then 30 else 31)"

definition days_before_month :: "nat \<Rightarrow> nat \<Rightarrow> nat" where
  "days_before_month year month = sum_list (map (days_in_month year) [1..<month])"

definition ymd2ord :: "nat \<Rightarrow> nat \<Rightarrow> nat \<Rightarrow> nat" where
  "ymd2ord year month day = days_before_year year + days_before_month year month + day"

definition mk_datetime :: "nat \<Rightarrow> nat \<Rightarrow> nat \<Rightarrow> nat \<Rightarrow> nat \<Rightarrow> nat \<Rightarrow> datetime" where
  \<comment> \<open>\<^verbatim>\<open>datetime(year, month, day, hour, minute, second)\<close> for a valid date and time\<close>
  "mk_datetime year month day hour minute second =
     (ymd2ord year month day, ((hour * 60 + minute) * 60 + second) * 1000000)"

definition add_days :: "datetime \<Rightarrow> nat \<Rightarrow> error + datetime" where
  \<comment> \<open>\<^verbatim>\<open>dt + timedelta(days=n)\<close>: past the last day of year 9999 Python raises
      \<^verbatim>\<open>OverflowError\<close>\<close>
  "add_days dt n =
     (if fst dt + n > MAXORDINAL then Inl OverflowError else Inr (fst dt + n, snd dt))"

record usage_cost =
  row_user_email :: string
  row_model :: string
  row_task :: string
  row_timestamp :: datetime
  row_input_tokens :: int
  row_output_tokens :: int
  row_total_cost :: int
  row_cost_currency :: string
  row_model_used_by_cost_calculation :: string

text \<open>
  A \<^typ>\<open>usage_cost\<close> is a row of the table \<^verbatim>\<open>usage_costs\<close>; \<open>row_total_cost\<close> counts
  units of \<open>10\<^sup>-\<^sup>8\<close>, the scale of the column \<^verbatim>\<open>DECIMAL(20,8)\<close>.
\<close>

record usage_summary =
  sum_user_email :: string
  sum_model :: string
  sum_currency :: string
  sum_date :: nat
  sum_total_cost :: int
  sum_total_input_tokens :: int
  sum_total_output_tokens :: int


definition date_function :: "datetime \<Rightarrow> nat" where
  \<comment> \<open>\<^verbatim>\<open>strftime('%Y-%m-%d', timestamp)\<close> or \<^verbatim>\<open>to_char(timestamp, 'YYYY-MM-DD')\<close>: the
      calendar day. The text has a fixed width, so its order is the order of days.\<close>
  "date_function ts = fst ts"

definition where_conditions ::
  "string option \<Rightarrow> datetime option \<Rightarrow> datetime option \<Rightarrow> (usage_cost \<Rightarrow> bool) list" where
  \<comment> \<open>the conditions of the \<^verbatim>\<open>WHERE\<close> clause with their parameters bound; the third
      argument is \<open>next_day\<close>. An empty \<open>user_email\<close> is falsy and adds no condition.\<close>
  "where_conditions user_email start_date next_day =
     (case user_email of
        None \<Rightarrow> []
      | Some u \<Rightarrow> if u = [] then [] else [\<lambda>r. row_user_email r = u])
     @ (case start_date of None \<Rightarrow> [] | Some s \<Rightarrow> [\<lambda>r. row_timestamp r \<ge> s])
     @ (case next_day of None \<Rightarrow> [] | Some n \<Rightarrow> [\<lambda>r. row_timestamp r < n])"

definition selected_rows ::
  "usage_cost list \<Rightarrow> (usage_cost \<Rightarrow> bool) list \<Rightarrow> usage_cost list" where
  \<comment> \<open>\<^verbatim>\<open>FROM usage_costs WHERE c1 AND c2 ...\<close>\<close>
  "selected_rows db conditions = filter (\<lambda>r. list_all (\<lambda>c. c r) conditions) db"

definition order_key :: "usage_cost \<Rightarrow> string \<times> nat \<times> string \<times> string" where
  \<comment> \<open>the columns of \<^verbatim>\<open>GROUP BY\<close>, in the order \<^verbatim>\<open>ORDER BY\<close> lists them\<close>
  "order_key r =
     (row_user_email r, date_function (row_timestamp r), row_model r, row_cost_currency r)"

definition summary_key :: "usage_summary \<Rightarrow> string \<times> nat \<times> string \<times> string" where
  "summary_key s = (sum_user_email s, sum_date s, sum_model s, sum_currency s)"

definition summarise ::
  "usage_cost list \<Rightarrow> string \<times> nat \<times> string \<times> string \<Rightarrow> usage_summary" where
  \<comment> \<open>one group of \<^verbatim>\<open>GROUP BY\<close> with its three sums\<close>
  "summarise rows k =
     (let group = filter (\<lambda>r. order_key r = k) rows;
          (user_email, date, model, currency) = k
      in \<lparr>sum_user_email = user_email, sum_model = model, sum_currency = currency,
          sum_date = date,
          sum_total_cost = sum_list (map row_total_cost group),
          sum_total_input_tokens = sum_list (map row_input_tokens group),
          sum_total_output_tokens = sum_list (map row_output_tokens group)\<rparr>)"

definition get_usage_stats ::
  "usage_cost list \<Rightarrow> string option \<Rightarrow> datetime option \<Rightarrow> datetime option
     \<Rightarrow> error + usage_summary list" where
  \<comment> \<open>The query is run on the table \<open>db\<close>: rows selected by the conditions, grouped,
      one entry for each group, ordered by the four columns of \<^verbatim>\<open>ORDER BY\<close>. Text is
      compared byte by byte.\<close>
  "get_usage_stats db user_email start_date end_date =
     (case (case end_date of
              None \<Rightarrow> Inr None
            | Some e \<Rightarrow> (case add_days e 1 of Inl err \<Rightarrow> Inl err | Inr n \<Rightarrow> Inr (Some n))) of
        Inl err \<Rightarrow> Inl err
      | Inr next_day \<Rightarrow>
          let rows = selected_rows db (where_conditions user_email start_date next_day)
          in Inr (map (summarise rows) (sort (remdups (map order_key rows)))))"

subsection \<open>CostTrackingManager\<close>

record status_event =
  event_description :: string
  event_done :: bool

text \<open>A \<^typ>\<open>status_event\<close> is the \<^verbatim>\<open>data\<close> of an event of type \<^verbatim>\<open>"status"\<close>.\<close>

definition cost_str_of :: "decimal option \<Rightarrow> string option \<Rightarrow> string" where
  "cost_str_of current_cost cost_currency =
     (case (current_cost, cost_currency) of
        (Some c, Some cur) \<Rightarrow>
          if cur = ''RUB'' then format_cost c @ ruble else CHR ''$'' # format_cost c
      | _ \<Rightarrow> [])"

definition status_parts ::
  "int option \<Rightarrow> int option \<Rightarrow> int option \<Rightarrow> string \<Rightarrow> decimal option \<Rightarrow> string option
     \<Rightarrow> string \<Rightarrow> string list" where
  \<comment> \<open>\<open>time_part\<close> is the first element of the source's list: the elapsed wall-clock
      time written with two fractional digits and an \<open>s\<close>, or the empty text when
      \<open>start_time\<close> is falsy. Its float arithmetic is not represented.\<close>
  "status_parts input_tokens generated_tokens reasoning_tokens time_part current_cost
       cost_currency status =
     (let cost_str = cost_str_of current_cost cost_currency in
      [time_part,
       (case input_tokens of Some n \<Rightarrow> str_int n @ '' Input Tokens'' | None \<Rightarrow> []),
       (case generated_tokens of Some n \<Rightarrow> str_int n @ '' Generated Tokens'' | None \<Rightarrow> []),
       (case reasoning_tokens of
          Some n \<Rightarrow> if n \<noteq> 0 then ''including '' @ str_int n @ '' Reasoning Tokens'' else []
        | None \<Rightarrow> []),
       (if cost_str \<noteq> [] \<and> \<not> contains status ''Requested'' then ''Cost '' @ cost_str
        else []),
       status])"

definition update_status_message ::
  "int option \<Rightarrow> int option \<Rightarrow> int option \<Rightarrow> string \<Rightarrow> bool \<Rightarrow> decimal option
     \<Rightarrow> string option \<Rightarrow> string \<Rightarrow> status_event option" where
  \<comment> \<open>the event handed to \<^verbatim>\<open>__event_emitter__\<close>; \<open>None\<close> when there is no emitter\<close>
  "update_status_message input_tokens generated_tokens reasoning_tokens time_part
       has_event_emitter current_cost cost_currency status =
     (if \<not> has_event_emitter then None
      else
        let status_message =
              join '' | ''
                (filter (\<lambda>p. p \<noteq> [])
                   (status_parts input_tokens generated_tokens reasoning_tokens time_part
                      current_cost cost_currency status))
        in Some \<lparr>event_description = status_message,
                 event_done = (status = ''Completed'' \<or> status = ''Stopped'' \<or> status = [])\<rparr>)"




subsection \<open>Notions the properties are stated with\<close>





definition decimal_value :: "decimal \<Rightarrow> rat" where
  \<comment> \<open>the number a decimal stands for\<close>
  "decimal_value d =
     (if negative d then - 1 else 1) * of_nat (coefficient d)
     * (if 0 \<le> exponent d then 10 ^ nat (exponent d) else 1 / 10 ^ nat (- exponent d))"

definition round_half_up_places :: "rat \<Rightarrow> nat \<Rightarrow> int" where
  \<comment> \<open>\<open>x\<close> rounded to \<open>n\<close> fractional digits, a tie away from zero; the result counts
      units of \<open>10\<^sup>-\<^sup>n\<close>\<close>
  "round_half_up_places x n =
     (if 0 \<le> x then \<lfloor>x * 10 ^ n + 1 / 2\<rfloor> else - \<lfloor>- x * 10 ^ n + 1 / 2\<rfloor>)"





definition usage_fact ::
  "string \<Rightarrow> string \<Rightarrow> datetime \<Rightarrow> int \<Rightarrow> int \<Rightarrow> int \<Rightarrow> string \<Rightarrow> usage_cost" where
  \<comment> \<open>a row of a chat request whose model is a key of the pricing table\<close>
  "usage_fact user_email model timestamp input_tokens output_tokens total_cost currency =
     \<lparr>row_user_email = user_email, row_model = model, row_task = ''chat'',
      row_timestamp = timestamp, row_input_tokens = input_tokens,
      row_output_tokens = output_tokens, row_total_cost = total_cost,
      row_cost_currency = currency, row_model_used_by_cost_calculation = model\<rparr>"







subsection \<open>Example data\<close>


definition fact_jan5 :: usage_cost where
  "fact_jan5 =
     usage_fact ''ann@example.org'' ''openai.gpt-4'' (mk_datetime 2024 1 5 23 59 0)
       1000 500 6000000000 ''USD''"

definition fact_jan6 :: usage_cost where
  "fact_jan6 =
     usage_fact ''ann@example.org'' ''openai.gpt-4'' (mk_datetime 2024 1 6 0 0 0)
       10 20 150000000 ''USD''"

definition summary_jan5 :: usage_summary where
  "summary_jan5 =
     \<lparr>sum_user_email = ''ann@example.org'', sum_model = ''openai.gpt-4'',
      sum_currency = ''USD'', sum_date = 738890, sum_total_cost = 6000000000,
      sum_total_input_tokens = 1000, sum_total_output_tokens = 500\<rparr>"

definition summary_jan6 :: usage_summary where
  "summary_jan6 =
     \<lparr>sum_user_email = ''ann@example.org'', sum_model = ''openai.gpt-4'',
      sum_currency = ''USD'', sum_date = 738891, sum_total_cost = 150000000,
      sum_total_input_tokens = 10, sum_total_output_tokens = 20\<rparr>"

section \<open>Properties\<close>

subsection \<open>Pricing resolution\<close>











lemma get_model_data_exact:
  assumes "map_of table (strip (lower model)) = Some r"
  shows "get_model_data table model =
           ((strip (lower model), Some r), [ExactMatch (strip (lower model))])"
proof -
  from assms have "strip (lower model) \<in> set (map fst table)"
    by (metis map_of_eq_None_iff option.distinct(1) set_map)
  with assms show ?thesis by (simp add: get_model_data_def Let_def)
qed







text \<open>
  C5. A model name that, lowercased and trimmed, is a key of the table resolves to that
  key and its record as the table holds it, and the only line the resolution writes is
  the one of the exact match: the prefix search is not run.
\<close>

theorem exact_match:
  assumes "map_of table (strip (lower model)) = Some r"
  shows "get_model_data table model =
           ((strip (lower model), Some r), [ExactMatch (strip (lower model))])"
  using assms by (rule get_model_data_exact)

theorem exact_match_witness:
  "map_of pricing_data (strip (lower ''  OpenAI.GPT-4 ''))
     = Some (price (dec 3 (- 2)) (dec 6 (- 2)) ''USD'')
   \<and> get_model_data pricing_data ''  OpenAI.GPT-4 '' =
       ((''openai.gpt-4'', Some (price (dec 3 (- 2)) (dec 6 (- 2)) ''USD'')),
        [ExactMatch ''openai.gpt-4''])"
proof -
  have h: "map_of pricing_data (strip (lower ''  OpenAI.GPT-4 ''))
     = Some (price (dec 3 (- 2)) (dec 6 (- 2)) ''USD'')"
    by code_simp
  have s: "strip (lower ''  OpenAI.GPT-4 '') = ''openai.gpt-4''"
    by code_simp
  from exact_match [OF h] h s show ?thesis by simp
qed

subsection \<open>Unresolved models\<close>







lemma str_int_examples:
  "str_int 1000 = ''1000''" "str_int 500 = ''500''" "str_int 10 = ''10''" "str_int 20 = ''20''"
  by (simp_all add: str_int_def digits_of.simps digit_char_def)

lemma round_half_even_zero: "round_half_even 0 k = 0"
  by (simp add: round_half_even_def)

lemma format_cost_zero:
  "coefficient d = 0 \<Longrightarrow> \<not> negative d \<Longrightarrow> format_cost d = ''0.00''"
  by (simp add: format_cost_def rescale_def round_half_even_zero digits_of.simps
      digit_char_def group_thousands.simps)

lemma status_message_unknown_example:
  "update_status_message (Some 1000) (Some 500) None ''1.50s'' True
     (Some (dec 0 (- 8))) (Some []) ''Completed''
   = Some \<lparr>event_description =
             ''1.50s | 1000 Input Tokens | 500 Generated Tokens | Cost $0.00 | Completed'',
           event_done = True\<rparr>"
  by (simp add: update_status_message_def status_parts_def cost_str_of_def format_cost_zero
      str_int_examples dec_def)



subsection \<open>Encoder selection and status events\<close>




text \<open>
  C8. The \<open>done\<close> flag of an emitted status event is true exactly when the status label
  is \<^verbatim>\<open>Completed\<close>, \<^verbatim>\<open>Stopped\<close> or the empty text.
\<close>

theorem done_flag:
  assumes "update_status_message input_tokens generated_tokens reasoning_tokens time_part
             has_event_emitter current_cost cost_currency status = Some ev"
  shows "event_done ev \<longleftrightarrow> status \<in> {''Completed'', ''Stopped'', ''''}"
  using assms by (auto simp: update_status_message_def Let_def split: if_splits)

theorem done_flag_witness:
  "update_status_message (Some 1000) (Some 500) None ''1.50s'' True
     (Some (dec 0 (- 8))) (Some []) ''Completed''
   = Some \<lparr>event_description =
             ''1.50s | 1000 Input Tokens | 500 Generated Tokens | Cost $0.00 | Completed'',
           event_done = True\<rparr>
   \<and> (event_done \<lparr>event_description =
             ''1.50s | 1000 Input Tokens | 500 Generated Tokens | Cost $0.00 | Completed'',
           event_done = True\<rparr>
        \<longleftrightarrow> ''Completed'' \<in> {''Completed'', ''Stopped'', ''''})"
  using done_flag [OF status_message_unknown_example] status_message_unknown_example
  by simp

subsection \<open>Rendering of the cost\<close>

lemma digit_char_digit: "digit_char n \<in> set ''0123456789''"
proof -
  have "n mod 10 < length ''0123456789''" by simp
  then show ?thesis unfolding digit_char_def by (rule nth_mem)
qed

lemma digits_of_digits: "digits_of n \<noteq> [] \<and> set (digits_of n) \<subseteq> set ''0123456789''"
proof (induction n rule: digits_of.induct)
  case (1 n)
  show ?case
  proof (cases "n < 10")
    case True
    then show ?thesis using digit_char_digit [of n] by (subst (1 2) digits_of.simps) simp
  next
    case False
    with 1 show ?thesis using digit_char_digit [of n] by (subst (1 2) digits_of.simps) simp
  qed
qed

lemma hd_group_thousands:
  "ds \<noteq> [] \<Longrightarrow> group_thousands ds \<noteq> [] \<and> hd (group_thousands ds) = hd ds"
proof (induction ds rule: group_thousands.induct)
  case (1 ds)
  show ?case
  proof (cases "length ds \<le> 3")
    case True
    with 1 show ?thesis by (subst (1 2) group_thousands.simps) simp
  next
    case False
    then have ne: "take (length ds - 3) ds \<noteq> []" by auto
    have "hd (take (length ds - 3) ds) = hd ds" using False by (cases ds) (auto simp: take_Cons')
    with 1 False ne show ?thesis by (subst (1 2) group_thousands.simps) simp
  qed
qed

lemma format_cost_shape:
  "format_cost c \<noteq> []
   \<and> hd (format_cost c) \<in> set ''-0123456789''
   \<and> last (format_cost c) \<in> set ''0123456789''"
proof -
  let ?r = "rescale round_half_even c (- 2)"
  let ?g = "group_thousands (digits_of (coefficient ?r div 100))"
  have g: "?g \<noteq> []" "hd ?g \<in> set ''0123456789''"
    using hd_group_thousands [of "digits_of (coefficient ?r div 100)"]
      digits_of_digits [of "coefficient ?r div 100"]
    by (auto simp del: set_simps dest: hd_in_set)
  show ?thesis
    using g digit_char_digit [of "coefficient ?r mod 100"]
    by (auto simp add: format_cost_def Let_def hd_append simp del: set_simps) auto
qed

lemma sublist_join: "p \<in> set ps \<Longrightarrow> sublist p (join sep ps)"
proof (induction sep ps rule: join.induct)
  case (1 sep)
  then show ?case by simp
next
  case (2 sep q)
  then show ?case by simp
next
  case (3 sep q r ps)
  show ?case
  proof (cases "p = q")
    case True
    have "q @ sep @ join sep (r # ps) = [] @ q @ (sep @ join sep (r # ps))" by simp
    then have "sublist q (q @ sep @ join sep (r # ps))"
      unfolding sublist_def by blast
    with True show ?thesis by simp
  next
    case False
    with 3 have "sublist p (join sep (r # ps))" by simp
    then obtain xs ys where "join sep (r # ps) = xs @ p @ ys"
      by (auto simp: sublist_def)
    then have "q @ sep @ join sep (r # ps) = (q @ sep @ xs) @ p @ ys" by simp
    then have "sublist p (q @ sep @ join sep (r # ps))"
      unfolding sublist_def by blast
    then show ?thesis by simp
  qed
qed

lemma not_suffix_ruble: "\<not> suffix ruble (CHR ''$'' # format_cost c)"
proof
  assume "suffix ruble (CHR ''$'' # format_cost c)"
  then obtain zs where "CHR ''$'' # format_cost c = zs @ ruble" by (auto simp: suffix_def)
  then have "last (CHR ''$'' # format_cost c) = last (zs @ ruble)" by simp
  then have "last (format_cost c) = CHR 0xBD"
    using format_cost_shape [of c] by (simp add: ruble_def)
  with format_cost_shape [of c] show False by simp
qed

lemma not_prefix_dollar: "\<not> prefix ''$'' (format_cost c @ ruble)"
proof
  assume "prefix ''$'' (format_cost c @ ruble)"
  then obtain zs where "format_cost c @ ruble = CHR ''$'' # zs" by (auto simp: prefix_def)
  then have "hd (format_cost c @ ruble) = CHR ''$''" by simp
  then have "hd (format_cost c) = CHR ''$''"
    using format_cost_shape [of c] by (simp add: hd_append)
  with format_cost_shape [of c] show False by simp
qed

lemma cost_segment_emitted:
  assumes "\<not> contains status ''Requested''"
  shows "\<exists>ev. update_status_message input_tokens generated_tokens reasoning_tokens time_part
                True (Some c) (Some cur) status = Some ev
              \<and> sublist (''Cost '' @ cost_str_of (Some c) (Some cur)) (event_description ev)"
proof -
  let ?cs = "cost_str_of (Some c) (Some cur)"
  let ?parts = "status_parts input_tokens generated_tokens reasoning_tokens time_part
                  (Some c) (Some cur) status"
  have "?cs \<noteq> []" by (cases "cur = ''RUB''") (simp_all add: cost_str_of_def ruble_def)
  with assms have "''Cost '' @ ?cs \<in> set (filter (\<lambda>p. p \<noteq> []) ?parts)"
    by (simp add: status_parts_def Let_def)
  then have "sublist (''Cost '' @ ?cs) (join '' | '' (filter (\<lambda>p. p \<noteq> []) ?parts))"
    by (rule sublist_join)
  then show ?thesis by (simp add: update_status_message_def Let_def)
qed

text \<open>
  C10. When a cost and a currency are present, the cost text ends with the ruble sign
  exactly when the currency is \<^verbatim>\<open>RUB\<close> (the amount followed by the sign) and begins with
  a dollar sign for every other currency (the sign followed by the amount). Unless the
  status label holds \<^verbatim>\<open>Requested\<close>, the emitted description holds the segment
  \<^verbatim>\<open>Cost\<close> followed by that text. The zero cost with the empty currency of an
  unresolved model is written \<^verbatim>\<open>$0.00\<close>.
\<close>

theorem cost_rendering:
  "(suffix ruble (cost_str_of (Some c) (Some cur)) \<longleftrightarrow> cur = ''RUB'')
   \<and> (prefix ''$'' (cost_str_of (Some c) (Some cur)) \<longleftrightarrow> cur \<noteq> ''RUB'')
   \<and> (cur = ''RUB'' \<longrightarrow> cost_str_of (Some c) (Some cur) = format_cost c @ ruble)
   \<and> (cur \<noteq> ''RUB'' \<longrightarrow> cost_str_of (Some c) (Some cur) = ''$'' @ format_cost c)
   \<and> (\<not> contains status ''Requested'' \<longrightarrow>
        (\<exists>ev. update_status_message input_tokens generated_tokens reasoning_tokens time_part
                 True (Some c) (Some cur) status = Some ev
               \<and> sublist (''Cost '' @ cost_str_of (Some c) (Some cur))
                    (event_description ev)))
   \<and> (coefficient c = 0 \<and> \<not> negative c \<and> cur = '''' \<longrightarrow>
        cost_str_of (Some c) (Some cur) = ''$0.00'')"
proof (intro conjI impI)
  show "suffix ruble (cost_str_of (Some c) (Some cur)) \<longleftrightarrow> cur = ''RUB''"
    using not_suffix_ruble [of c]
    by (cases "cur = ''RUB''") (simp_all add: cost_str_of_def suffix_def)
  show "prefix ''$'' (cost_str_of (Some c) (Some cur)) \<longleftrightarrow> cur \<noteq> ''RUB''"
    using not_prefix_dollar [of c] by (cases "cur = ''RUB''") (simp_all add: cost_str_of_def)
  show "cost_str_of (Some c) (Some cur) = format_cost c @ ruble" if "cur = ''RUB''"
    using that by (simp add: cost_str_of_def)
  show "cost_str_of (Some c) (Some cur) = ''$'' @ format_cost c" if "cur \<noteq> ''RUB''"
    using that by (simp add: cost_str_of_def)
  show "\<exists>ev. update_status_message input_tokens generated_tokens reasoning_tokens time_part
                 True (Some c) (Some cur) status = Some ev
               \<and> sublist (''Cost '' @ cost_str_of (Some c) (Some cur))
                    (event_description ev)"
    if "\<not> contains status ''Requested''"
    using that by (rule cost_segment_emitted)
  show "cost_str_of (Some c) (Some cur) = ''$0.00''"
    if "coefficient c = 0 \<and> \<not> negative c \<and> cur = ''''"
    using that by (simp add: cost_str_of_def format_cost_zero)
qed

theorem cost_rendering_witness:
  "(\<not> contains ''Streaming'' ''Requested''
      \<and> cost_str_of (Some (dec 123456789 (- 8))) (Some ''RUB'') = ''1.23'' @ ruble
      \<and> suffix ruble (cost_str_of (Some (dec 123456789 (- 8))) (Some ''RUB''))
      \<and> \<not> prefix ''$'' (cost_str_of (Some (dec 123456789 (- 8))) (Some ''RUB''))
      \<and> (\<exists>ev. update_status_message (Some 10) (Some 20) None [] True
                  (Some (dec 123456789 (- 8))) (Some ''RUB'') ''Streaming'' = Some ev
               \<and> sublist (''Cost 1.23'' @ ruble) (event_description ev)))
   \<and> ('''' \<noteq> ''RUB'' \<and> coefficient (dec 0 (- 8)) = 0 \<and> \<not> negative (dec 0 (- 8))
      \<and> \<not> contains ''Completed'' ''Requested''
      \<and> cost_str_of (Some (dec 0 (- 8))) (Some '''') = ''$0.00''
      \<and> prefix ''$'' (cost_str_of (Some (dec 0 (- 8))) (Some ''''))
      \<and> \<not> suffix ruble (cost_str_of (Some (dec 0 (- 8))) (Some ''''))
      \<and> (\<exists>ev. update_status_message (Some 10) (Some 20) None [] True
                  (Some (dec 0 (- 8))) (Some '''') ''Completed'' = Some ev
               \<and> sublist ''Cost $0.00'' (event_description ev)))"
proof -
  have f: "format_cost (dec 123456789 (- 8)) = ''1.23''"
    by (simp add: format_cost_def rescale_def round_half_even_def dec_def digits_of.simps
        digit_char_def group_thousands.simps)
  have s: "\<not> contains ''Streaming'' ''Requested''" by simp
  have c: "\<not> contains ''Completed'' ''Requested''" by simp
  have z: "coefficient (dec 0 (- 8)) = 0 \<and> \<not> negative (dec 0 (- 8)) \<and> '''' = ''''"
    by (simp add: dec_def)
  have n: "'''' \<noteq> ''RUB''" by simp
  from cost_rendering [of "dec 123456789 (- 8)" "''RUB''" "''Streaming''" "Some 10" "Some 20"
      None "[]"] s f
  have a: "cost_str_of (Some (dec 123456789 (- 8))) (Some ''RUB'') = ''1.23'' @ ruble
      \<and> suffix ruble (cost_str_of (Some (dec 123456789 (- 8))) (Some ''RUB''))
      \<and> \<not> prefix ''$'' (cost_str_of (Some (dec 123456789 (- 8))) (Some ''RUB''))
      \<and> (\<exists>ev. update_status_message (Some 10) (Some 20) None [] True
                  (Some (dec 123456789 (- 8))) (Some ''RUB'') ''Streaming'' = Some ev
               \<and> sublist (''Cost 1.23'' @ ruble) (event_description ev))"
    by auto
  from cost_rendering [of "dec 0 (- 8)" "''''" "''Completed''" "Some 10" "Some 20"
      None "[]"] c z n
  have b: "cost_str_of (Some (dec 0 (- 8))) (Some '''') = ''$0.00''
      \<and> prefix ''$'' (cost_str_of (Some (dec 0 (- 8))) (Some ''''))
      \<and> \<not> suffix ruble (cost_str_of (Some (dec 0 (- 8))) (Some ''''))
      \<and> (\<exists>ev. update_status_message (Some 10) (Some 20) None [] True
                  (Some (dec 0 (- 8))) (Some '''') ''Completed'' = Some ev
               \<and> sublist ''Cost $0.00'' (event_description ev))"
    by auto
  from a b s c z n show ?thesis by blast
qed

subsection \<open>Usage summary\<close>



lemma summary_key_summarise: "summary_key (summarise rows k) = k"
  by (cases k) (simp add: summary_key_def summarise_def Let_def)



lemma mk_datetime_examples:
  "mk_datetime 2024 1 5 0 0 0 = (738890, 0)"
  "mk_datetime 2024 1 5 23 59 0 = (738890, 86340000000)"
  "mk_datetime 2024 1 6 0 0 0 = (738891, 0)"
  "mk_datetime 9999 12 31 0 0 0 = (3652059, 0)"
  by (simp_all add: mk_datetime_def ymd2ord_def days_before_year_def days_before_month_def
      days_in_month_def is_leap_def upt_rec [of _ "numeral n" for n])

lemma summarise_mset:
  assumes "mset rows = mset rows'"
  shows "summarise rows k = summarise rows' k"
proof -
  have eq: "sum_list (map f (filter Q rows)) = sum_list (map f (filter Q rows'))"
    for f :: "usage_cost \<Rightarrow> int" and Q
  proof -
    have "mset (map f (filter Q rows)) = mset (map f (filter Q rows'))"
      using assms by simp
    then have "sum_mset (mset (map f (filter Q rows)))
                 = sum_mset (mset (map f (filter Q rows')))" by simp
    then show ?thesis by (simp only: sum_mset_sum_list)
  qed
  show ?thesis by (cases k) (simp add: summarise_def Let_def eq)
qed

lemma selected_rows_mset:
  "mset db' = mset db \<Longrightarrow> mset (selected_rows db' conds) = mset (selected_rows db conds)"
  by (simp add: selected_rows_def)

lemma sort_remdups_set: "set xs = set ys \<Longrightarrow> sort (remdups xs) = sort (remdups ys)"
  by (metis sorted_list_of_set_sort_remdups)

lemma get_usage_stats_mset:
  assumes "mset db' = mset db"
  shows "get_usage_stats db' user_email start_date end_date
           = get_usage_stats db user_email start_date end_date"
proof -
  have rows: "mset (selected_rows db' conds) = mset (selected_rows db conds)" for conds
    using assms by (rule selected_rows_mset)
  have keys: "sort (remdups (map order_key (selected_rows db' conds)))
                = sort (remdups (map order_key (selected_rows db conds)))" for conds
    using rows [of conds] by (intro sort_remdups_set) (metis set_map set_mset_mset)
  have sums: "summarise (selected_rows db' conds) = summarise (selected_rows db conds)"
    for conds
    using summarise_mset [OF rows [of conds]] by (intro ext)
  show ?thesis
    by (simp add: get_usage_stats_def Let_def keys sums split: sum.splits option.splits)
qed

lemma get_usage_stats_keys:
  assumes "get_usage_stats db user_email start_date end_date = Inr summary"
  shows "\<exists>rows. map summary_key summary = sort (remdups (map order_key rows))"
  using assms
  by (auto simp: get_usage_stats_def Let_def summary_key_summarise comp_def
      split: sum.splits option.splits)

lemma same_user_date_order:
  fixes k k' :: "string \<times> nat \<times> string \<times> string"
  assumes "k \<le> k'" "fst k = fst k'"
  shows "fst (snd k) \<le> fst (snd k')"
  using assms by (cases k, cases k') (auto simp: less_eq_prod_def)

text \<open>
  C7. Whatever the stored rows and the filters, the entries of a usage summary are
  ordered by user email, then date, then model, then currency, each combination once;
  the summary is the same for every order in which the rows were inserted; and two
  entries of the same user are in ascending order of their dates.
\<close>

theorem summary_order:
  assumes "get_usage_stats db user_email start_date end_date = Inr summary"
  shows "sorted (map summary_key summary)
       \<and> distinct (map summary_key summary)
       \<and> (\<forall>db'. mset db' = mset db
             \<longrightarrow> get_usage_stats db' user_email start_date end_date = Inr summary)
       \<and> (\<forall>i j. i < j \<and> j < length summary
                   \<and> sum_user_email (summary ! i) = sum_user_email (summary ! j)
             \<longrightarrow> sum_date (summary ! i) \<le> sum_date (summary ! j))"
proof (intro conjI allI impI)
  from get_usage_stats_keys [OF assms] obtain rows
    where keys: "map summary_key summary = sort (remdups (map order_key rows))" by blast
  then show sorted: "sorted (map summary_key summary)" by simp
  from keys show "distinct (map summary_key summary)" by simp
  show "get_usage_stats db' user_email start_date end_date = Inr summary"
    if "mset db' = mset db" for db'
    using get_usage_stats_mset [OF that] assms by simp
  show "sum_date (summary ! i) \<le> sum_date (summary ! j)"
    if h: "i < j \<and> j < length summary
          \<and> sum_user_email (summary ! i) = sum_user_email (summary ! j)" for i j
  proof -
    from h have "map summary_key summary ! i \<le> map summary_key summary ! j"
      using sorted by (auto simp: sorted_iff_nth_mono)
    with h have "summary_key (summary ! i) \<le> summary_key (summary ! j)" by simp
    from same_user_date_order [OF this] h show ?thesis by (simp add: summary_key_def)
  qed
qed

lemma order_key_usage_fact:
  "order_key (usage_fact u m ts i out c cur) = (u, fst ts, m, cur)"
  by (simp add: order_key_def usage_fact_def date_function_def)



theorem summary_order_witness:
  "get_usage_stats [fact_jan6, fact_jan5] None None None = Inr [summary_jan5, summary_jan6]
   \<and> sorted (map summary_key [summary_jan5, summary_jan6])
   \<and> mset [fact_jan5, fact_jan6] = mset [fact_jan6, fact_jan5]
   \<and> get_usage_stats [fact_jan5, fact_jan6] None None None = Inr [summary_jan5, summary_jan6]
   \<and> sum_user_email summary_jan5 = sum_user_email summary_jan6
   \<and> sum_date summary_jan5 \<le> sum_date summary_jan6"
proof -
  have h: "get_usage_stats [fact_jan6, fact_jan5] None None None
             = Inr [summary_jan5, summary_jan6]"
    unfolding fact_jan5_def fact_jan6_def summary_jan5_def summary_jan6_def
      mk_datetime_examples
    by (simp add: get_usage_stats_def selected_rows_def where_conditions_def
        order_key_usage_fact summarise_def less_eq_prod_def)
      (simp add: usage_fact_def order_key_def date_function_def)
  have m: "mset [fact_jan5, fact_jan6] = mset [fact_jan6, fact_jan5]" by simp
  have u: "sum_user_email summary_jan5 = sum_user_email summary_jan6"
    by (simp add: summary_jan5_def summary_jan6_def)
  note order = summary_order [OF h]
  from order have srt: "sorted (map summary_key [summary_jan5, summary_jan6])" by blast
  from order m
  have perm: "get_usage_stats [fact_jan5, fact_jan6] None None None
                = Inr [summary_jan5, summary_jan6]"
    by blast
  from order
  have "\<forall>i j. i < j \<and> j < length [summary_jan5, summary_jan6]
                \<and> sum_user_email ([summary_jan5, summary_jan6] ! i)
                  = sum_user_email ([summary_jan5, summary_jan6] ! j)
          \<longrightarrow> sum_date ([summary_jan5, summary_jan6] ! i)
                \<le> sum_date ([summary_jan5, summary_jan6] ! j)"
    by blast
  from this [rule_format, of 0 1] u
  have d: "sum_date summary_jan5 \<le> sum_date summary_jan6" by simp
  from h srt m perm u d show ?thesis by blast
qed

subsection \<open>Cost computation\<close>



lemma round_half_up_alt: "round_half_up c k = (2 * c + 10 ^ k) div (2 * 10 ^ k)"
proof -
  define p :: nat where "p = 10 ^ k"
  define q where "q = c div p"
  define r where "r = c mod p"
  have p: "0 < p" by (simp add: p_def)
  have c: "c = q * p + r" by (simp add: q_def r_def)
  have r: "r < p" using p by (simp add: r_def)
  have "2 * c + p = (2 * p) * q + (2 * r + p)" by (simp add: c algebra_simps)
  then have "(2 * c + p) div (2 * p) = q + (2 * r + p) div (2 * p)"
    using p by (simp only: div_mult_self4 [of "2 * p" q "2 * r + p"])
  moreover have "(2 * r + p) div (2 * p) = (if p \<le> 2 * r then 1 else 0)"
  proof (cases "p \<le> 2 * r")
    case True
    then have "(2 * p) * 1 \<le> 2 * r + p" "2 * r + p < (2 * p) * Suc 1"
      using r by simp_all
    then have "(2 * r + p) div (2 * p) = 1" by (rule div_nat_eqI)
    with True show ?thesis by simp
  next
    case False
    then have "2 * r + p < 2 * p" by simp
    with False show ?thesis by simp
  qed
  ultimately show ?thesis
    by (simp add: round_half_up_def Let_def p_def [symmetric] q_def [symmetric]
        r_def [symmetric])
qed





lemma round_half_up_floor:
  "int (round_half_up c k) = \<lfloor>(of_nat c :: rat) / 10 ^ k + 1 / 2\<rfloor>"
proof -
  have "(of_nat c :: rat) / 10 ^ k + 1 / 2 = of_int (int (2 * c + 10 ^ k)) / of_int (int (2 * 10 ^ k))"
    by (simp add: field_simps)
  then have "\<lfloor>(of_nat c :: rat) / 10 ^ k + 1 / 2\<rfloor> = int (2 * c + 10 ^ k) div int (2 * 10 ^ k)"
    by (simp only: floor_divide_of_int_eq)
  also have "\<dots> = int ((2 * c + 10 ^ k) div (2 * 10 ^ k))"
    by (simp only: zdiv_int)
  finally show ?thesis by (simp only: round_half_up_alt)
qed


















lemma round_half_up_places_units:
  assumes "x * 10 ^ f = of_nat u" "8 \<le> f"
  shows "round_half_up_places x 8 = int (round_half_up u (f - 8))"
proof -
  have x: "x = of_nat u / 10 ^ f" using assms(1) by (simp add: field_simps)
  then have nonneg: "0 \<le> x" by simp
  have "(10::rat) ^ f = 10 ^ (f - 8) * 10 ^ 8"
    using assms(2) by (metis le_add_diff_inverse2 power_add)
  then have "x * 10 ^ 8 = of_nat u / 10 ^ (f - 8)"
    unfolding x by (simp add: field_simps)
  then have "\<lfloor>x * 10 ^ 8 + 1 / 2\<rfloor> = \<lfloor>(of_nat u :: rat) / 10 ^ (f - 8) + 1 / 2\<rfloor>"
    by simp
  with nonneg show ?thesis
    by (simp only: round_half_up_places_def round_half_up_floor if_True)
qed




text \<open>
  One token at the rate 0.000000025 costs 2.5 units of \<open>10\<^sup>-\<^sup>8\<close>: the tie is rounded away
  from zero, to 3 units, where the rule of the context (half-even) would give 2.
\<close>

lemma rounding_tie_example:
  "round_half_up_places (decimal_value (dec 25 (- 9))) 8 = 3
   \<and> round_half_up 25 1 = 3 \<and> round_half_even 25 1 = 2"
proof -
  have "decimal_value (dec 25 (- 9)) * 10 ^ 9 = of_nat 25"
    by (simp add: decimal_value_def dec_def)
  then have "round_half_up_places (decimal_value (dec 25 (- 9))) 8
               = int (round_half_up 25 (9 - 8))"
    by (rule round_half_up_places_units) simp
  then show ?thesis by (simp add: round_half_up_def round_half_even_def)
qed

end
